theory Spec2Isabelle
  imports Complex_Main
begin

section \<open>Data model\<close>

text \<open>
  The layer editor of \<^verbatim>\<open>src/index.tsx\<close>. A JavaScript \<^verbatim>\<open>number\<close> holding a coordinate or a
  size is modelled as a \<^typ>\<open>real\<close>: rounding of IEEE doubles is outside the model, and so
  is a quotient whose divisor is zero (JavaScript yields an infinity or NaN there, HOL
  yields 0), which is why the statements about quotients ask for a decoded image with
  positive natural dimensions. Integer-valued numbers are \<^typ>\<open>int\<close> (layer ids, clock
  readings) or \<^typ>\<open>nat\<close> (the \<^verbatim>\<open>unsigned long\<close> attributes of the DOM: a canvas's width
  and height, an image's natural width and height). A JavaScript string is the list of
  its UTF-16 code units.
\<close>

type_synonym jsstring = "nat list"

definition js :: "string \<Rightarrow> jsstring" where
  "js s = map of_char s"

record HTMLImageElement =
  src :: jsstring
  naturalWidth :: nat
  naturalHeight :: nat

text \<open>
  \<^verbatim>\<open>interface CanvasImage\<close>. The fields \<^verbatim>\<open>id\<close>, \<^verbatim>\<open>x\<close> and \<^verbatim>\<open>y\<close> carry a prime, since
  the plain names are taken in HOL.
\<close>

record CanvasImage =
  id' :: int
  name :: jsstring
  img :: HTMLImageElement
  x' :: real
  y' :: real
  width :: real
  height :: real
  isVisible :: bool
  isLocked :: bool

datatype Handle = NW | NE | SW | SE

text \<open>The string behind each value of \<^verbatim>\<open>type Handle = 'nw' | 'ne' | 'sw' | 'se'\<close>.\<close>

fun handleName :: "Handle \<Rightarrow> string" where
  "handleName NW = ''nw''"
| "handleName NE = ''ne''"
| "handleName SW = ''sw''"
| "handleName SE = ''se''"

definition includes' :: "Handle \<Rightarrow> char \<Rightarrow> bool" where
  "includes' h c = (c \<in> set (handleName h))"

text \<open>A position \<^verbatim>\<open>{ x: number; y: number }\<close>.\<close>

record Point =
  px :: real
  py :: real

text \<open>
  The module-level state: the canvas state variables, the logical size of
  \<^verbatim>\<open>outpaintCanvas\<close>, and the part of the output panel that \<^verbatim>\<open>editImage\<close> writes.
\<close>

record State =
  canvasImages :: "CanvasImage list"
  activeImageId :: "int option"
  isDragging :: bool
  isResizing :: bool
  dragStart :: Point
  activeHandle :: "Handle option"
  canvasWidth :: nat
  canvasHeight :: nat
  textOutput :: jsstring
  textOutputContainerHidden :: bool
  imageOutputContainerHidden :: bool
  lastGeneratedImageDataUrl :: "jsstring option"

definition HANDLE_SIZE :: real where
  "HANDLE_SIZE = 16"

section \<open>Array helpers\<close>

text \<open>
  \<^verbatim>\<open>canvasImages.find((img) => img.id === activeImageId)\<close>: no layer is found while
  \<^verbatim>\<open>activeImageId\<close> is \<^verbatim>\<open>null\<close>, since every id is a number.
\<close>

definition findActive :: "State \<Rightarrow> CanvasImage option" where
  "findActive s =
     (case activeImageId s of
        None \<Rightarrow> None
      | Some a \<Rightarrow> find (\<lambda>i. id' i = a) (canvasImages s))"

text \<open>
  The object that \<^verbatim>\<open>find\<close> returns is mutated in place: in the list, the first element
  that satisfies the predicate is replaced.
\<close>

fun updateFirst :: "('a \<Rightarrow> bool) \<Rightarrow> ('a \<Rightarrow> 'a) \<Rightarrow> 'a list \<Rightarrow> 'a list" where
  "updateFirst P f [] = []"
| "updateFirst P f (v # vs) = (if P v then f v # vs else v # updateFirst P f vs)"

text \<open>\<^verbatim>\<open>findIndex\<close> answers -1 when no element satisfies the predicate.\<close>

fun findIndex :: "('a \<Rightarrow> bool) \<Rightarrow> 'a list \<Rightarrow> int" where
  "findIndex P [] = -1"
| "findIndex P (v # vs) =
     (if P v then 0 else (let r = findIndex P vs in if r < 0 then -1 else r + 1))"

text \<open>\<^verbatim>\<open>arr.splice(start, 0, item)\<close> for a start index that is not negative.\<close>

definition spliceInsert :: "nat \<Rightarrow> 'a \<Rightarrow> 'a list \<Rightarrow> 'a list" where
  "spliceInsert start item vs = take start vs @ item # drop start vs"

text \<open>
  \<^verbatim>\<open>const [clickedImage] = canvasImages.splice(i, 1); canvasImages.push(clickedImage)\<close>
  for an index inside the array.
\<close>

definition moveToEnd :: "nat \<Rightarrow> 'a list \<Rightarrow> 'a list" where
  "moveToEnd i vs = take i vs @ drop (Suc i) vs @ [vs ! i]"

section \<open>Geometry\<close>

definition getHandlePositions :: "CanvasImage \<Rightarrow> (Handle \<times> Point) list" where
  "getHandlePositions image' =
     [(NW, \<lparr>px = x' image', py = y' image'\<rparr>),
      (NE, \<lparr>px = x' image' + width image', py = y' image'\<rparr>),
      (SW, \<lparr>px = x' image', py = y' image' + height image'\<rparr>),
      (SE, \<lparr>px = x' image' + width image', py = y' image' + height image'\<rparr>)]"

definition getHandleAtPos :: "CanvasImage \<Rightarrow> real \<Rightarrow> real \<Rightarrow> Handle option" where
  "getHandleAtPos image' x y =
     (let handles = getHandlePositions image';
          handleHitboxSize = HANDLE_SIZE * 1.5
      in map_option fst
           (find (\<lambda>(key, handle).
                    x \<ge> px handle - handleHitboxSize / 2 \<and>
                    x \<le> px handle + handleHitboxSize / 2 \<and>
                    y \<ge> py handle - handleHitboxSize / 2 \<and>
                    y \<le> py handle + handleHitboxSize / 2) handles))"

text \<open>The condition of the hit test in \<^verbatim>\<open>handleInteractionStart\<close>.\<close>

definition hits :: "Point \<Rightarrow> CanvasImage \<Rightarrow> bool" where
  "hits pos image' =
     (isVisible image' \<and>
      px pos \<ge> x' image' \<and>
      px pos \<le> x' image' + width image' \<and>
      py pos \<ge> y' image' \<and>
      py pos \<le> y' image' + height image')"

section \<open>Pointer interaction\<close>

text \<open>
  The first block of \<^verbatim>\<open>handleInteractionStart\<close>: the handle under the pointer, looked for
  only when the active layer exists, is visible and is not locked. \<^verbatim>\<open>activeHandle\<close> is
  assigned in that case only (also when no handle is hit), and \<^verbatim>\<open>isResizing\<close> is set when
  a handle is hit.
\<close>

definition startOnHandle :: "Point \<Rightarrow> State \<Rightarrow> State \<times> bool" where
  "startOnHandle pos s =
     (case findActive s of
        None \<Rightarrow> (s, False)
      | Some activeImage \<Rightarrow>
          if isVisible activeImage \<and> \<not> isLocked activeImage then
            (case getHandleAtPos activeImage (px pos) (py pos) of
               None \<Rightarrow> (s\<lparr>activeHandle := None\<rparr>, False)
             | Some h \<Rightarrow> (s\<lparr>activeHandle := Some h, isResizing := True\<rparr>, True))
          else (s, False))"

text \<open>
  The loop \<^verbatim>\<open>for (let i = canvasImages.length - 1; i >= 0; i--)\<close> up to its \<^verbatim>\<open>break\<close>:
  \<open>hitLoop pos images n\<close> inspects the indices \<open>n - 1\<close> down to 0 and answers the first
  index whose layer is hit.
\<close>

fun hitLoop :: "Point \<Rightarrow> CanvasImage list \<Rightarrow> nat \<Rightarrow> nat option" where
  "hitLoop pos images 0 = None"
| "hitLoop pos images (Suc i) =
     (if hits pos (images ! i) then Some i else hitLoop pos images i)"

definition startOnLayer :: "Point \<Rightarrow> State \<Rightarrow> State \<times> bool" where
  "startOnLayer pos s =
     (case hitLoop pos (canvasImages s) (length (canvasImages s)) of
        None \<Rightarrow> (s, False)
      | Some i \<Rightarrow>
          (let image' = canvasImages s ! i;
               s1 = (if \<not> isLocked image' then
                       s\<lparr>isDragging := True,
                         dragStart := \<lparr>px = px pos - x' image', py = py pos - y' image'\<rparr>,
                         canvasImages := moveToEnd i (canvasImages s)\<rparr>
                     else s)
           in (s1\<lparr>activeImageId := Some (id' image')\<rparr>, True)))"

definition handleInteractionStart :: "Point \<Rightarrow> State \<Rightarrow> State" where
  "handleInteractionStart pos s =
     (let (s1, clicked1) = startOnHandle pos s;
          (s2, clicked2) = (if \<not> clicked1 then startOnLayer pos s1 else (s1, clicked1))
      in if \<not> clicked2 then s2\<lparr>activeImageId := None\<rparr> else s2)"

text \<open>
  The size that the resize branch of \<^verbatim>\<open>handleInteractionMove\<close> computes: the values of
  \<^verbatim>\<open>newWidth\<close> and \<^verbatim>\<open>newHeight\<close> when the minimum is tested.
\<close>

definition resizeDims :: "Handle \<Rightarrow> Point \<Rightarrow> CanvasImage \<Rightarrow> real \<times> real" where
  "resizeDims h pos activeImage =
     (let aspectRatio =
            real (naturalWidth (img activeImage)) / real (naturalHeight (img activeImage));
          originalRight = x' activeImage + width activeImage;
          originalBottom = y' activeImage + height activeImage;
          (newWidth1, widthChanged) =
            (if includes' h CHR ''e'' then (px pos - x' activeImage, True)
             else if includes' h CHR ''w'' then (originalRight - px pos, True)
             else (width activeImage, False));
          (newWidth2, newHeight2) =
            (if includes' h CHR ''s'' then
               (let nh = py pos - y' activeImage
                in (if \<not> widthChanged then nh * aspectRatio else newWidth1, nh))
             else if includes' h CHR ''n'' then
               (let nh = originalBottom - py pos
                in (if \<not> widthChanged then nh * aspectRatio else newWidth1, nh))
             else (newWidth1, height activeImage));
          newHeight3 = (if widthChanged then newWidth2 / aspectRatio else newHeight2)
      in (newWidth2, newHeight3))"

definition resizeImage :: "Handle \<Rightarrow> Point \<Rightarrow> CanvasImage \<Rightarrow> CanvasImage" where
  "resizeImage h pos activeImage =
     (let originalRight = x' activeImage + width activeImage;
          originalBottom = y' activeImage + height activeImage;
          (newWidth, newHeight) = resizeDims h pos activeImage;
          a1 = (if includes' h CHR ''n''
                then activeImage\<lparr>y' := originalBottom - newHeight\<rparr> else activeImage);
          a2 = (if includes' h CHR ''w'' then a1\<lparr>x' := originalRight - newWidth\<rparr> else a1)
      in if newWidth > 20 \<and> newHeight > 20
         then a2\<lparr>width := newWidth, height := newHeight\<rparr>
         else a2)"

definition dragImage :: "Point \<Rightarrow> Point \<Rightarrow> CanvasImage \<Rightarrow> CanvasImage" where
  "dragImage start pos activeImage =
     activeImage\<lparr>x' := px pos - px start, y' := py pos - py start\<rparr>"

definition handleInteractionMove :: "Point \<Rightarrow> State \<Rightarrow> State" where
  "handleInteractionMove pos s =
     (case findActive s of
        None \<Rightarrow> s
      | Some activeImage \<Rightarrow>
          if isLocked activeImage then s
          else
            (let change =
                   (case (isResizing s, activeHandle s) of
                      (True, Some h) \<Rightarrow> resizeImage h pos
                    | _ \<Rightarrow> if isDragging s then dragImage (dragStart s) pos else (\<lambda>a. a))
             in s\<lparr>canvasImages :=
                    updateFirst (\<lambda>i. Some (id' i) = activeImageId s) change (canvasImages s)\<rparr>))"

definition handleInteractionEnd :: "State \<Rightarrow> State" where
  "handleInteractionEnd s = s\<lparr>isDragging := False, isResizing := False, activeHandle := None\<rparr>"

text \<open>
  The event wrappers, after \<^verbatim>\<open>getMousePos\<close> or \<^verbatim>\<open>getTouchPos\<close> has mapped the event to
  a logical position. The mouse and the touch wrapper of a kind do the same to the
  canvas state (a touch event with more than one contact is dropped before it gets
  here; the cursor style is not part of the state).
\<close>

datatype PointerEvent = PointerDown Point | PointerMove Point | PointerUp

fun handleCanvasEvent :: "PointerEvent \<Rightarrow> State \<Rightarrow> State" where
  "handleCanvasEvent (PointerDown pos) s = handleInteractionStart pos s"
| "handleCanvasEvent (PointerMove pos) s =
     (if isDragging s \<or> isResizing s then handleInteractionMove pos s else s)"
| "handleCanvasEvent PointerUp s = handleInteractionEnd s"

definition handleCanvasEvents :: "PointerEvent list \<Rightarrow> State \<Rightarrow> State" where
  "handleCanvasEvents evs s = fold handleCanvasEvent evs s"

section \<open>Layer panel operations\<close>

text \<open>
  \<^verbatim>\<open>duplicateLayer\<close>; \<open>now\<close> is the reading of \<^verbatim>\<open>Date.now()\<close> at the call. The source
  layer was found, so \<^verbatim>\<open>findIndex\<close> is not negative when the copy is spliced in.
\<close>

definition duplicateLayer :: "int \<Rightarrow> int \<Rightarrow> State \<Rightarrow> State" where
  "duplicateLayer i now s =
     (case find (\<lambda>im. id' im = i) (canvasImages s) of
        None \<Rightarrow> s
      | Some imageToDuplicate \<Rightarrow>
          (let newImage = imageToDuplicate
                 \<lparr>id' := now,
                  x' := x' imageToDuplicate + 20,
                  y' := y' imageToDuplicate + 20,
                  name := name imageToDuplicate @ js '' copy''\<rparr>;
               originalIndex = findIndex (\<lambda>im. id' im = i) (canvasImages s)
           in s\<lparr>canvasImages := spliceInsert (nat (originalIndex + 1)) newImage (canvasImages s),
                activeImageId := Some (id' newImage)\<rparr>))"

definition deleteLayer :: "int \<Rightarrow> State \<Rightarrow> State" where
  "deleteLayer i s =
     (let s1 = s\<lparr>canvasImages := filter (\<lambda>im. id' im \<noteq> i) (canvasImages s)\<rparr>
      in if activeImageId s1 = Some i then s1\<lparr>activeImageId := None\<rparr> else s1)"

text \<open>
  \<^verbatim>\<open>String.prototype.trim\<close> removes the code units of ECMAScript's WhiteSpace and
  LineTerminator productions from both ends.
\<close>

definition isWhiteSpace :: "nat \<Rightarrow> bool" where
  "isWhiteSpace c =
     (c \<in> {0x9, 0xA, 0xB, 0xC, 0xD, 0x20, 0xA0, 0x1680, 0x2028, 0x2029, 0x202F, 0x205F,
           0x3000, 0xFEFF} \<or> (0x2000 \<le> c \<and> c \<le> 0x200A))"

definition trim :: "jsstring \<Rightarrow> jsstring" where
  "trim s = rev (dropWhile isWhiteSpace (rev (dropWhile isWhiteSpace s)))"

text \<open>
  \<^verbatim>\<open>stopEditing\<close> of a layer's row in the panel, on the value of its name input: the
  empty string is the only string that is falsy.
\<close>

definition stopEditing :: "jsstring \<Rightarrow> CanvasImage \<Rightarrow> CanvasImage" where
  "stopEditing nameInputValue image' =
     (let newName = trim nameInputValue
      in if newName \<noteq> [] then image'\<lparr>name := newName\<rparr> else image')"

section \<open>Canvas size and batch insertion\<close>

text \<open>
  \<^verbatim>\<open>setupCanvasDimensions\<close>. The selected entry of the aspect-ratio menu is an input:
  \<open>resolutionMatch\<close> is the pair of numbers that the pattern \<^verbatim>\<open>(\d+)x(\d+)\<close> finds in its
  text, if any, and \<open>aspectRatio\<close> is its value.
\<close>

definition setupCanvasDimensions :: "(nat \<times> nat) option \<Rightarrow> string \<Rightarrow> State \<Rightarrow> State" where
  "setupCanvasDimensions resolutionMatch aspectRatio s =
     (case resolutionMatch of
        Some (w, h) \<Rightarrow> s\<lparr>canvasWidth := w, canvasHeight := h\<rparr>
      | None \<Rightarrow>
          if aspectRatio = ''16:9'' then s\<lparr>canvasWidth := 1344, canvasHeight := 738\<rparr>
          else if aspectRatio = ''9:16'' then s\<lparr>canvasWidth := 738, canvasHeight := 1344\<rparr>
          else if aspectRatio = ''4:3'' then s\<lparr>canvasWidth := 1024, canvasHeight := 768\<rparr>
          else if aspectRatio = ''3:4'' then s\<lparr>canvasWidth := 768, canvasHeight := 1024\<rparr>
          else s\<lparr>canvasWidth := 1024, canvasHeight := 1024\<rparr>)"

text \<open>
  One image of a batch that has finished decoding: its index in the batch, the name of
  its file, the decoded image, and the reading of \<^verbatim>\<open>Date.now()\<close> when its \<^verbatim>\<open>onload\<close>
  handler runs.
\<close>

record Loaded =
  index :: nat
  fileName :: jsstring
  loadedImg :: HTMLImageElement
  loadedAt :: int

text \<open>The \<^verbatim>\<open>img.onload\<close> handler of \<^verbatim>\<open>addImagesToCanvas\<close>.\<close>

definition onload :: "Loaded \<Rightarrow> State \<Rightarrow> State" where
  "onload l s =
     (let width0 = real (naturalWidth (loadedImg l));
          height0 = real (naturalHeight (loadedImg l));
          maxWidth = real (canvasWidth s);
          maxHeight = real (canvasHeight s);
          imgAspectRatio = width0 / height0;
          (width1, height1) =
            (if width0 > maxWidth \<or> height0 > maxHeight then
               (if maxWidth / maxHeight > imgAspectRatio
                then (maxHeight * imgAspectRatio, maxHeight)
                else (maxWidth, maxWidth / imgAspectRatio))
             else (width0, height0));
          x = (real (canvasWidth s) - width1) / 2 + real (index l) * 20;
          y = (real (canvasHeight s) - height1) / 2 + real (index l) * 20;
          newImage = \<lparr>id' = loadedAt l + int (index l), name = fileName l,
                      img = loadedImg l, x' = x, y' = y, width = width1, height = height1,
                      isVisible = True, isLocked = False\<rparr>
      in s\<lparr>canvasImages := canvasImages s @ [newImage], activeImageId := Some (id' newImage)\<rparr>)"

text \<open>
  \<^verbatim>\<open>addImagesToCanvas\<close>: \<open>files\<close> are the names of the files of the batch and \<open>loads\<close>
  the images that decode, in the order in which their handlers run (the decodes are
  started together and finish in any order; a file that fails to decode adds nothing).
\<close>

definition addImagesToCanvas ::
    "(nat \<times> nat) option \<Rightarrow> string \<Rightarrow> jsstring list \<Rightarrow> Loaded list \<Rightarrow> State \<Rightarrow> State" where
  "addImagesToCanvas resolutionMatch aspectRatio files loads s =
     (if length files = 0 then s
      else
        (let s1 = (if canvasWidth s = 0 \<or> canvasHeight s = 0
                   then setupCanvasDimensions resolutionMatch aspectRatio s else s)
         in fold onload loads s1))"

text \<open>The operations on the layer stack, as a user issues them.\<close>

datatype LayerOp =
    AddImages "(nat \<times> nat) option" string "jsstring list" "Loaded list"
  | DeleteLayer int
  | DuplicateLayer int int

fun applyOp :: "LayerOp \<Rightarrow> State \<Rightarrow> State" where
  "applyOp (AddImages resolutionMatch aspectRatio files loads) s =
     addImagesToCanvas resolutionMatch aspectRatio files loads s"
| "applyOp (DeleteLayer i) s = deleteLayer i s"
| "applyOp (DuplicateLayer i now) s = duplicateLayer i now s"

definition applyOps :: "LayerOp list \<Rightarrow> State \<Rightarrow> State" where
  "applyOps ops s = fold applyOp ops s"

text \<open>The module's initial canvas state, before \<^verbatim>\<open>main\<close> sizes the canvas.\<close>

definition initialState :: State where
  "initialState =
     \<lparr>canvasImages = [], activeImageId = None, isDragging = False, isResizing = False,
      dragStart = \<lparr>px = 0, py = 0\<rparr>, activeHandle = None,
      canvasWidth = 0, canvasHeight = 0, textOutput = [],
      textOutputContainerHidden = True, imageOutputContainerHidden = True,
      lastGeneratedImageDataUrl = None\<rparr>"

section \<open>Compositor\<close>

text \<open>
  A canvas element: its size and the \<^verbatim>\<open>drawImage\<close> calls made on its context, in
  order. A new canvas is transparent, so the bitmap is the result of these calls on a
  transparent surface of that size.
\<close>

record DrawImage =
  drawnImg :: HTMLImageElement
  dx :: real
  dy :: real
  dWidth :: real
  dHeight :: real

record Canvas =
  cWidth :: nat
  cHeight :: nat
  drawn :: "DrawImage list"



definition drawLayer :: "CanvasImage \<Rightarrow> DrawImage" where
  "drawLayer image' =
     \<lparr>drawnImg = img image', dx = x' image', dy = y' image',
      dWidth = width image', dHeight = height image'\<rparr>"

text \<open>
  The loop of \<^verbatim>\<open>editImage\<close> that composites the layers on the temporary canvas; nothing
  is drawn when the canvas gives no context.
\<close>

definition composite :: "bool \<Rightarrow> State \<Rightarrow> Canvas" where
  "composite tempCtx s =
     \<lparr>cWidth = canvasWidth s, cHeight = canvasHeight s,
      drawn = (if tempCtx then map drawLayer (filter isVisible (canvasImages s)) else [])\<rparr>"

definition noVisibleImageMessage :: jsstring where
  "noVisibleImageMessage =
     js ''Please add and enable at least one visible image on the canvas for editing.''"

text \<open>
  \<^verbatim>\<open>editImage\<close> up to its call of the generation service: the new state, and the
  composited canvas that is the first image part of the request, or \<open>None\<close> when the
  function returns without calling the service. The reference files and the prompt
  text of the request, and the handling of the response, are not modelled.
\<close>

definition editImage :: "bool \<Rightarrow> State \<Rightarrow> State \<times> Canvas option" where
  "editImage tempCtx s =
     (let s1 = s\<lparr>imageOutputContainerHidden := True, textOutputContainerHidden := True,
                 lastGeneratedImageDataUrl := None\<rparr>;
          visibleImages = filter isVisible (canvasImages s1)
      in if length visibleImages = 0
         then (s1\<lparr>textOutput := noVisibleImageMessage, textOutputContainerHidden := False\<rparr>,
               None)
         else (s1, Some (composite tempCtx s1)))"

section \<open>Properties that the specification names\<close>

text \<open>
  The definitions of this section follow the words of the specification, not the code.
  The active id, if set, resolves to a layer of the stack.
\<close>

definition activeResolves :: "State \<Rightarrow> bool" where
  "activeResolves s =
     (case activeImageId s of
        None \<Rightarrow> True
      | Some a \<Rightarrow> a \<in> set (map id' (canvasImages s)))"

text \<open>
  The corner diagonally opposite a handle, which a resize is to leave in place:
  \<open>(x + width, y + height)\<close> for the handle \<^verbatim>\<open>nw\<close>, \<open>(x, y)\<close> for \<^verbatim>\<open>se\<close>.
\<close>

fun oppositeCorner :: "Handle \<Rightarrow> CanvasImage \<Rightarrow> Point" where
  "oppositeCorner NW l = \<lparr>px = x' l + width l, py = y' l + height l\<rparr>"
| "oppositeCorner NE l = \<lparr>px = x' l, py = y' l + height l\<rparr>"
| "oppositeCorner SW l = \<lparr>px = x' l + width l, py = y' l\<rparr>"
| "oppositeCorner SE l = \<lparr>px = x' l, py = y' l\<rparr>"

text \<open>
  A layer of positive size whose image is decoded (its natural dimensions are positive).
\<close>

definition wellSized :: "CanvasImage \<Rightarrow> bool" where
  "wellSized l =
     (0 < width l \<and> 0 < height l \<and> 0 < naturalWidth (img l) \<and> 0 < naturalHeight (img l))"

section \<open>Example inputs\<close>

text \<open>Concrete images, layers and states at which the theorems below are evaluated.\<close>

definition square100 :: HTMLImageElement where
  "square100 = \<lparr>src = js ''blob:a'', naturalWidth = 100, naturalHeight = 100\<rparr>"

definition wide2000 :: HTMLImageElement where
  "wide2000 = \<lparr>src = js ''blob:b'', naturalWidth = 2000, naturalHeight = 1000\<rparr>"

definition layerA :: CanvasImage where
  "layerA = \<lparr>id' = 1, name = js ''a.png'', img = square100, x' = 100, y' = 100,
             width = 100, height = 100, isVisible = True, isLocked = False\<rparr>"

definition layerHidden :: CanvasImage where
  "layerHidden = \<lparr>id' = 2, name = js ''b.png'', img = wide2000, x' = 0, y' = 0,
                  width = 400, height = 200, isVisible = False, isLocked = False\<rparr>"


definition stateWith :: "CanvasImage list \<Rightarrow> int option \<Rightarrow> State" where
  "stateWith layers active =
     initialState\<lparr>canvasImages := layers, activeImageId := active,
                  canvasWidth := 1024, canvasHeight := 1024\<rparr>"

text \<open>
  A batch of two files whose decodes finish in reverse order, one millisecond apart:
  the handler of the second file runs at clock reading 1000, the handler of the first
  file at 1001.
\<close>

definition reversedLoads :: LayerOp where
  "reversedLoads =
     AddImages None ''1:1'' [js ''a.png'', js ''b.png'']
       [\<lparr>index = 1, fileName = js ''b.png'', loadedImg = square100, loadedAt = 1000\<rparr>,
        \<lparr>index = 0, fileName = js ''a.png'', loadedImg = wide2000, loadedAt = 1001\<rparr>]"



text \<open>
  The state after a pointer down on the \<^verbatim>\<open>se\<close> handle of \<open>layerA\<close>, the active layer.
\<close>

definition resizingSE :: State where
  "resizingSE = (stateWith [layerA] (Some 1))\<lparr>activeHandle := Some SE, isResizing := True\<rparr>"


section \<open>Normalising a reference image\<close>








section \<open>Renaming a layer\<close>

lemma trim_Nil_iff: "trim v = [] \<longleftrightarrow> list_all isWhiteSpace v"
proof
  assume "trim v = []"
  then have all: "\<forall>c \<in> set (dropWhile isWhiteSpace v). isWhiteSpace c"
    by (simp add: trim_def)
  have "dropWhile isWhiteSpace v = []"
  proof (rule ccontr)
    assume ne: "dropWhile isWhiteSpace v \<noteq> []"
    then have "\<not> isWhiteSpace (hd (dropWhile isWhiteSpace v))" by (rule hd_dropWhile)
    moreover from ne all have "isWhiteSpace (hd (dropWhile isWhiteSpace v))" by simp
    ultimately show False by simp
  qed
  then show "list_all isWhiteSpace v" by (simp add: list_all_iff)
next
  assume "list_all isWhiteSpace v"
  then have "dropWhile isWhiteSpace v = []"
    by (simp add: list_all_iff)
  then show "trim v = []"
    by (simp only: trim_def rev.simps dropWhile.simps)
qed

text \<open>
  Claim C10: when the committed input consists of white space only (its trim is empty),
  \<^verbatim>\<open>stopEditing\<close> leaves the layer as it is; otherwise the layer's name becomes the
  trimmed input, which is not empty, and nothing else of the layer changes. So a rename
  never sets a name to the empty string.
\<close>

theorem stopEditing_keeps_or_trims:
  "(list_all isWhiteSpace v \<longrightarrow> stopEditing v l = l) \<and>
   (\<not> list_all isWhiteSpace v \<longrightarrow> stopEditing v l = l\<lparr>name := trim v\<rparr> \<and> trim v \<noteq> [])"
  by (simp add: stopEditing_def trim_Nil_iff)

theorem stopEditing_keeps_or_trims_witness:
  "list_all isWhiteSpace [0x20, 0x9, 0xA0, 0x2028] \<and>
   stopEditing [0x20, 0x9, 0xA0, 0x2028] layerA = layerA \<and>
   \<not> list_all isWhiteSpace (js ''  Sky 1 '') \<and>
   stopEditing (js ''  Sky 1 '') layerA = layerA\<lparr>name := js ''Sky 1''\<rparr> \<and>
   js ''Sky 1'' \<noteq> []"
proof -
  have t: "trim (js ''  Sky 1 '') = js ''Sky 1''"
    by (simp add: trim_def js_def isWhiteSpace_def)
  have w: "list_all isWhiteSpace [0x20, 0x9, 0xA0, 0x2028]"
    by (simp add: isWhiteSpace_def)
  have n: "\<not> list_all isWhiteSpace (js ''  Sky 1 '')"
    by (simp add: js_def isWhiteSpace_def)
  have e: "js ''Sky 1'' \<noteq> []"
    by (simp add: js_def)
  from stopEditing_keeps_or_trims [of "[0x20, 0x9, 0xA0, 0x2028]" layerA] w
  have a: "stopEditing [0x20, 0x9, 0xA0, 0x2028] layerA = layerA" by blast
  from stopEditing_keeps_or_trims [of "js ''  Sky 1 ''" layerA] n
  have "stopEditing (js ''  Sky 1 '') layerA = layerA\<lparr>name := trim (js ''  Sky 1 '')\<rparr>"
    by blast
  then have b: "stopEditing (js ''  Sky 1 '') layerA = layerA\<lparr>name := js ''Sky 1''\<rparr>"
    by (simp only: t)
  from w a n b e show ?thesis by blast
qed

section \<open>Flattening the canvas\<close>

text \<open>
  Claim C6: when no layer of the stack is visible, \<^verbatim>\<open>editImage\<close> returns without a
  request to the generation service and without a composited canvas; it shows the
  message that asks for a visible image, and the layer stack and the selection are as
  before.
\<close>

theorem editImage_no_visible_layer:
  assumes "length (filter isVisible (canvasImages s)) = 0"
  shows "editImage tempCtx s =
           (s\<lparr>imageOutputContainerHidden := True, lastGeneratedImageDataUrl := None,
              textOutput := noVisibleImageMessage, textOutputContainerHidden := False\<rparr>, None)
         \<and> canvasImages (fst (editImage tempCtx s)) = canvasImages s
         \<and> activeImageId (fst (editImage tempCtx s)) = activeImageId s"
  using assms by (simp add: editImage_def)

theorem editImage_no_visible_layer_witness:
  "length (filter isVisible (canvasImages (stateWith [layerHidden] (Some 2)))) = 0 \<and>
   snd (editImage True (stateWith [layerHidden] (Some 2))) = None \<and>
   textOutput (fst (editImage True (stateWith [layerHidden] (Some 2)))) = noVisibleImageMessage \<and>
   canvasImages (fst (editImage True (stateWith [layerHidden] (Some 2)))) = [layerHidden]"
proof -
  have h: "length (filter isVisible (canvasImages (stateWith [layerHidden] (Some 2)))) = 0"
    by (simp add: stateWith_def layerHidden_def)
  have c: "canvasImages (stateWith [layerHidden] (Some 2)) = [layerHidden]"
    by (simp add: stateWith_def)
  from editImage_no_visible_layer [OF h, of True] h c show ?thesis by simp
qed



section \<open>Layer ids and the active id\<close>

lemma set_spliceInsert: "set (spliceInsert n v vs) = insert v (set vs)"
proof -
  have "set (take n vs) \<union> set (drop n vs) = set vs"
    by (metis append_take_drop_id set_append)
  then show ?thesis by (auto simp add: spliceInsert_def)
qed

lemma distinct_spliceInsert:
  "distinct (map f (spliceInsert n v vs)) \<longleftrightarrow> f v \<notin> f ` set vs \<and> distinct (map f vs)"
proof -
  have "distinct (map f (take n vs @ drop n vs)) = distinct (map f vs)" by simp
  moreover have "set (take n vs) \<union> set (drop n vs) = set vs"
    by (metis append_take_drop_id set_append)
  ultimately show ?thesis
    unfolding spliceInsert_def by (auto simp del: append_take_drop_id)
qed

text \<open>The active id resolves after every operation, whatever the clock readings are.\<close>

lemma deleteLayer_activeResolves: "activeResolves s \<Longrightarrow> activeResolves (deleteLayer i s)"
  by (auto simp add: activeResolves_def deleteLayer_def Let_def split: option.splits)

lemma duplicateLayer_activeResolves:
  "activeResolves s \<Longrightarrow> activeResolves (duplicateLayer i now s)"
  by (auto simp add: activeResolves_def duplicateLayer_def set_spliceInsert split: option.splits)

lemma onload_activeResolves: "activeResolves (onload l s)"
  by (simp add: activeResolves_def onload_def Let_def split: prod.splits)

lemma fold_onload_activeResolves:
  "activeResolves s \<Longrightarrow> activeResolves (fold onload loads s)"
proof (induction loads arbitrary: s)
  case Nil
  then show ?case by simp
next
  case (Cons l loads)
  show ?case by (simp add: Cons.IH onload_activeResolves)
qed

lemma setupCanvasDimensions_activeResolves:
  "activeResolves (setupCanvasDimensions m r s) = activeResolves s"
  by (simp add: activeResolves_def setupCanvasDimensions_def split: option.splits)

lemma applyOp_activeResolves: "activeResolves s \<Longrightarrow> activeResolves (applyOp op s)"
  by (cases op)
    (simp_all add: addImagesToCanvas_def fold_onload_activeResolves
      setupCanvasDimensions_activeResolves deleteLayer_activeResolves
      duplicateLayer_activeResolves)

lemma applyOps_activeResolves: "activeResolves s \<Longrightarrow> activeResolves (applyOps ops s)"
  unfolding applyOps_def by (induction ops arbitrary: s) (simp_all add: applyOp_activeResolves)

lemma initialState_activeResolves: "activeResolves initialState"
  by (simp add: activeResolves_def initialState_def)

text \<open>
  The ids stay distinct as long as each id taken from the clock is not in the stack
  already; nothing in the code makes it so.
\<close>

lemma deleteLayer_distinct:
  "distinct (map id' (canvasImages s)) \<Longrightarrow> distinct (map id' (canvasImages (deleteLayer i s)))"
  by (simp add: deleteLayer_def Let_def distinct_map_filter)

lemma duplicateLayer_distinct:
  "distinct (map id' (canvasImages s)) \<Longrightarrow> now \<notin> set (map id' (canvasImages s)) \<Longrightarrow>
   distinct (map id' (canvasImages (duplicateLayer i now s)))"
  by (auto simp add: duplicateLayer_def distinct_spliceInsert split: option.splits)

lemma onload_distinct:
  "distinct (map id' (canvasImages s)) \<Longrightarrow>
   loadedAt l + int (index l) \<notin> set (map id' (canvasImages s)) \<Longrightarrow>
   distinct (map id' (canvasImages (onload l s)))"
  by (simp add: onload_def Let_def split: prod.splits)

text \<open>
  Claim C8 asks that the layer ids stay pairwise distinct after every sequence of batch
  insertions, deletions and duplications. The code breaks it: in a batch of two files
  whose decodes finish in reverse order one millisecond apart, both layers get the id
  1001 (\<^verbatim>\<open>Date.now() + index\<close> is 1000 + 1 and 1001 + 0), and deleting the layer
  with that id then removes both.
\<close>

theorem batch_ids_collide:
  "map id' (canvasImages (applyOps [reversedLoads] initialState)) = [1001, 1001] \<and>
   \<not> distinct (map id' (canvasImages (applyOps [reversedLoads] initialState))) \<and>
   canvasImages (applyOps [reversedLoads, DeleteLayer 1001] initialState) = []"
  by (simp add: applyOps_def reversedLoads_def addImagesToCanvas_def initialState_def
      setupCanvasDimensions_def onload_def deleteLayer_def Let_def square100_def wide2000_def)

section \<open>Selecting a layer at pointer down\<close>


lemma hitLoop_Some:
  "hitLoop pos vs n = Some i \<Longrightarrow>
   i < n \<and> hits pos (vs ! i) \<and> (\<forall>j. i < j \<and> j < n \<longrightarrow> \<not> hits pos (vs ! j))"
proof (induction n)
  case 0
  then show ?case by simp
next
  case (Suc n)
  show ?case
  proof (cases "hits pos (vs ! n)")
    case True
    with Suc.prems show ?thesis by auto
  next
    case False
    with Suc.prems have "hitLoop pos vs n = Some i" by simp
    with Suc.IH False show ?thesis by (auto simp add: less_Suc_eq)
  qed
qed

lemma startOnHandle_cases:
  "startOnHandle pos s = (s, False) \<or>
   startOnHandle pos s = (s\<lparr>activeHandle := None\<rparr>, False) \<or>
   (\<exists>h. startOnHandle pos s = (s\<lparr>activeHandle := Some h, isResizing := True\<rparr>, True))"
  by (auto simp add: startOnHandle_def split: option.splits)






section \<open>Locked layers and dragging\<close>


lemma updateFirst_none: "find P vs = None \<Longrightarrow> updateFirst P f vs = vs"
  by (induction vs) (auto split: if_splits)















section \<open>Resizing\<close>

lemma find_updateFirst:
  "find P vs = Some a \<Longrightarrow> P (f a) \<Longrightarrow> find P (updateFirst P f vs) = Some (f a)"
  by (induction vs) (auto split: if_splits)

lemma updateFirst_all:
  "\<forall>v \<in> set vs. R v \<Longrightarrow> (\<And>v. R v \<Longrightarrow> R (f v)) \<Longrightarrow> \<forall>v \<in> set (updateFirst P f vs). R v"
  by (induction vs) auto

lemma set_moveToEnd: "i < length vs \<Longrightarrow> set (moveToEnd i vs) = set vs"
proof -
  assume "i < length vs"
  then have "set vs = set (take i vs @ vs ! i # drop (Suc i) vs)"
    by (simp add: id_take_nth_drop [symmetric])
  then show ?thesis by (auto simp add: moveToEnd_def)
qed

lemma resizeImage_fields:
  "id' (resizeImage h pos a) = id' a"
  "img (resizeImage h pos a) = img a"
  "width (resizeImage h pos a) =
     (if fst (resizeDims h pos a) > 20 \<and> snd (resizeDims h pos a) > 20
      then fst (resizeDims h pos a) else width a)"
  "height (resizeImage h pos a) =
     (if fst (resizeDims h pos a) > 20 \<and> snd (resizeDims h pos a) > 20
      then snd (resizeDims h pos a) else height a)"
  by (simp_all add: resizeImage_def Let_def split: prod.splits)

lemma resizeImage_wellSized: "wellSized a \<Longrightarrow> wellSized (resizeImage h pos a)"
  by (simp add: wellSized_def resizeImage_fields)

lemma dragImage_wellSized: "wellSized a \<Longrightarrow> wellSized (dragImage start pos a)"
  by (simp add: wellSized_def dragImage_def)

lemma handleInteractionMove_wellSized:
  assumes "\<forall>l \<in> set (canvasImages s). wellSized l"
  shows "\<forall>l \<in> set (canvasImages (handleInteractionMove pos s)). wellSized l"
proof -
  have r: "\<forall>l \<in> set (updateFirst P (resizeImage h pos) (canvasImages s)). wellSized l" for P h
    using assms by (rule updateFirst_all) (rule resizeImage_wellSized)
  have d: "\<forall>l \<in> set (updateFirst P (dragImage start pos) (canvasImages s)). wellSized l"
    for P start
    using assms by (rule updateFirst_all) (rule dragImage_wellSized)
  have n: "\<forall>l \<in> set (updateFirst P (\<lambda>a. a) (canvasImages s)). wellSized l" for P
    using assms by (rule updateFirst_all)
  from assms r d n show ?thesis
    by (simp add: handleInteractionMove_def split: option.splits bool.splits)
qed

lemma startOnLayer_set:
  "set (canvasImages (fst (startOnLayer pos s))) = set (canvasImages s)"
proof (cases "hitLoop pos (canvasImages s) (length (canvasImages s))")
  case None
  then show ?thesis by (simp add: startOnLayer_def)
next
  case (Some i)
  from hitLoop_Some [OF Some] have "i < length (canvasImages s)" by simp
  with Some show ?thesis
    by (simp add: startOnLayer_def Let_def set_moveToEnd)
qed

lemma handleInteractionStart_set:
  "set (canvasImages (handleInteractionStart pos s)) = set (canvasImages s)"
proof -
  obtain s1 c1 where s1: "startOnHandle pos s = (s1, c1)" by (cases "startOnHandle pos s")
  with startOnHandle_cases [of pos s] have eq: "canvasImages s1 = canvasImages s" by auto
  obtain s2 c2 where s2: "startOnLayer pos s1 = (s2, c2)" by (cases "startOnLayer pos s1")
  with startOnLayer_set [of pos s1]
  have "set (canvasImages s2) = set (canvasImages s)"
    by (simp add: eq)
  with s1 s2 eq show ?thesis
    by (simp add: handleInteractionStart_def)
qed

lemma handleCanvasEvent_wellSized:
  "\<forall>l \<in> set (canvasImages s). wellSized l \<Longrightarrow>
   \<forall>l \<in> set (canvasImages (handleCanvasEvent ev s)). wellSized l"
  by (cases ev)
    (simp_all add: handleInteractionStart_set handleInteractionMove_wellSized
      handleInteractionEnd_def)

lemma handleCanvasEvents_wellSized:
  "\<forall>l \<in> set (canvasImages s). wellSized l \<Longrightarrow>
   \<forall>l \<in> set (canvasImages (handleCanvasEvents evs s)). wellSized l"
  unfolding handleCanvasEvents_def
proof (induction evs arbitrary: s)
  case Nil
  then show ?case by simp
next
  case (Cons ev evs)
  from Cons.prems have "\<forall>l \<in> set (canvasImages (handleCanvasEvent ev s)). wellSized l"
    by (rule handleCanvasEvent_wellSized)
  then show ?case using Cons.IH by simp
qed

lemma resize_move_active:
  assumes "findActive s = Some a" "\<not> isLocked a" "isResizing s" "activeHandle s = Some h"
  shows "findActive (handleInteractionMove pos s) = Some (resizeImage h pos a)"
proof -
  from assms(1) obtain k where k: "activeImageId s = Some k"
    and f: "find (\<lambda>i. id' i = k) (canvasImages s) = Some a"
    by (auto simp add: findActive_def split: option.splits)
  from f have ka: "id' a = k" by (auto simp add: find_Some_iff)
  have p: "(\<lambda>i. Some (id' i) = activeImageId s) = (\<lambda>i. id' i = k)"
    by (simp add: k)
  have "handleInteractionMove pos s =
          s\<lparr>canvasImages := updateFirst (\<lambda>i. id' i = k) (resizeImage h pos) (canvasImages s)\<rparr>"
    using assms by (simp add: handleInteractionMove_def p)
  then show ?thesis
    using find_updateFirst [OF f, of "resizeImage h pos"]
    by (simp add: findActive_def k ka resizeImage_fields)
qed

text \<open>
  Claim C2: during a resize of the active, unlocked layer, a pointer move commits the
  recomputed width and height only if both exceed 20; otherwise the layer keeps the
  width and height it had before the move. Hence, for layers with decoded images, all
  widths and heights of the stack are positive after every sequence of pointer events
  if they were positive before.
\<close>

theorem resize_commits_only_above_minimum:
  "(findActive s = Some a \<and> \<not> isLocked a \<and> isResizing s \<and> activeHandle s = Some h \<and>
    0 < naturalWidth (img a) \<and> 0 < naturalHeight (img a) \<longrightarrow>
    (\<exists>b. findActive (handleInteractionMove pos s) = Some b \<and>
         (if fst (resizeDims h pos a) > 20 \<and> snd (resizeDims h pos a) > 20
          then width b = fst (resizeDims h pos a) \<and> height b = snd (resizeDims h pos a)
          else width b = width a \<and> height b = height a))) \<and>
   ((\<forall>l \<in> set (canvasImages s).
       0 < width l \<and> 0 < height l \<and> 0 < naturalWidth (img l) \<and> 0 < naturalHeight (img l)) \<longrightarrow>
    (\<forall>l \<in> set (canvasImages (handleCanvasEvents evs s)). 0 < width l \<and> 0 < height l))"
proof (intro conjI impI)
  assume "findActive s = Some a \<and> \<not> isLocked a \<and> isResizing s \<and> activeHandle s = Some h \<and>
    0 < naturalWidth (img a) \<and> 0 < naturalHeight (img a)"
  then have "findActive (handleInteractionMove pos s) = Some (resizeImage h pos a)"
    by (simp add: resize_move_active)
  then show "\<exists>b. findActive (handleInteractionMove pos s) = Some b \<and>
         (if fst (resizeDims h pos a) > 20 \<and> snd (resizeDims h pos a) > 20
          then width b = fst (resizeDims h pos a) \<and> height b = snd (resizeDims h pos a)
          else width b = width a \<and> height b = height a)"
    by (simp add: resizeImage_fields)
next
  assume "\<forall>l \<in> set (canvasImages s).
       0 < width l \<and> 0 < height l \<and> 0 < naturalWidth (img l) \<and> 0 < naturalHeight (img l)"
  then have "\<forall>l \<in> set (canvasImages s). wellSized l"
    by (simp add: wellSized_def)
  then have "\<forall>l \<in> set (canvasImages (handleCanvasEvents evs s)). wellSized l"
    by (rule handleCanvasEvents_wellSized)
  then show "\<forall>l \<in> set (canvasImages (handleCanvasEvents evs s)). 0 < width l \<and> 0 < height l"
    by (simp add: wellSized_def)
qed

theorem resize_commits_only_above_minimum_witness:
  "handleInteractionStart \<lparr>px = 200, py = 200\<rparr> (stateWith [layerA] (Some 1)) = resizingSE \<and>
   findActive resizingSE = Some layerA \<and> \<not> isLocked layerA \<and> isResizing resizingSE \<and>
   activeHandle resizingSE = Some SE \<and>
   0 < naturalWidth (img layerA) \<and> 0 < naturalHeight (img layerA) \<and>
   resizeDims SE \<lparr>px = 110, py = 110\<rparr> layerA = (10, 10) \<and>
   (\<exists>b. findActive (handleInteractionMove \<lparr>px = 110, py = 110\<rparr> resizingSE) = Some b \<and>
        width b = 100 \<and> height b = 100) \<and>
   resizeDims SE \<lparr>px = 210, py = 215\<rparr> layerA = (110, 110) \<and>
   (\<exists>b. findActive (handleInteractionMove \<lparr>px = 210, py = 215\<rparr> resizingSE) = Some b \<and>
        width b = 110 \<and> height b = 110) \<and>
   list_all (\<lambda>l. 0 < width l \<and> 0 < height l)
     (canvasImages
       (handleCanvasEvents
         [PointerDown \<lparr>px = 200, py = 200\<rparr>, PointerMove \<lparr>px = 110, py = 110\<rparr>,
          PointerMove \<lparr>px = 210, py = 215\<rparr>, PointerUp]
         (stateWith [layerA] (Some 1))))"
proof -
  let ?s = "stateWith [layerA] (Some 1)"
  let ?evs = "[PointerDown \<lparr>px = 200, py = 200\<rparr>, PointerMove \<lparr>px = 110, py = 110\<rparr>,
          PointerMove \<lparr>px = 210, py = 215\<rparr>, PointerUp]"
  have st: "handleInteractionStart \<lparr>px = 200, py = 200\<rparr> ?s = resizingSE"
    by (simp add: handleInteractionStart_def startOnHandle_def findActive_def stateWith_def
        initialState_def layerA_def getHandleAtPos_def getHandlePositions_def HANDLE_SIZE_def
        resizingSE_def)
  have h: "findActive resizingSE = Some layerA \<and> \<not> isLocked layerA \<and> isResizing resizingSE \<and>
      activeHandle resizingSE = Some SE \<and>
      0 < naturalWidth (img layerA) \<and> 0 < naturalHeight (img layerA)"
    by (simp add: resizingSE_def findActive_def stateWith_def initialState_def layerA_def
        square100_def)
  have d1: "resizeDims SE \<lparr>px = 110, py = 110\<rparr> layerA = (10, 10)"
    by (simp add: resizeDims_def includes'_def layerA_def square100_def)
  have d2: "resizeDims SE \<lparr>px = 210, py = 215\<rparr> layerA = (110, 110)"
    by (simp add: resizeDims_def includes'_def layerA_def square100_def)
  have wh: "width layerA = 100" "height layerA = 100"
    by (simp_all add: layerA_def)
  have p: "\<forall>l \<in> set (canvasImages ?s).
      0 < width l \<and> 0 < height l \<and> 0 < naturalWidth (img l) \<and> 0 < naturalHeight (img l)"
    by (simp add: stateWith_def initialState_def layerA_def square100_def)
  from resize_commits_only_above_minimum
         [where s = resizingSE and a = layerA and h = SE and pos = "\<lparr>px = 110, py = 110\<rparr>",
          THEN conjunct1] h
  have a: "\<exists>b. findActive (handleInteractionMove \<lparr>px = 110, py = 110\<rparr> resizingSE) = Some b \<and>
        width b = 100 \<and> height b = 100"
    by (simp add: d1 wh)
  from resize_commits_only_above_minimum
         [where s = resizingSE and a = layerA and h = SE and pos = "\<lparr>px = 210, py = 215\<rparr>",
          THEN conjunct1] h
  have b: "\<exists>b. findActive (handleInteractionMove \<lparr>px = 210, py = 215\<rparr> resizingSE) = Some b \<and>
        width b = 110 \<and> height b = 110"
    by (simp add: d2)
  from resize_commits_only_above_minimum [where s = ?s and evs = ?evs, THEN conjunct2] p
  have c: "list_all (\<lambda>l. 0 < width l \<and> 0 < height l) (canvasImages (handleCanvasEvents ?evs ?s))"
    by (simp add: list_all_iff)
  from st h d1 a d2 b c show ?thesis by blast
qed

section \<open>The pinned corner of a resize\<close>

text \<open>
  The size that a resize by a corner handle computes: the width from the pointer's
  distance to the opposite vertical edge, the height from the width and the aspect
  ratio of the image's natural size.
\<close>

lemma resizeDims_corner:
  "resizeDims NW pos a =
     (x' a + width a - px pos,
      (x' a + width a - px pos) / (real (naturalWidth (img a)) / real (naturalHeight (img a))))"
  "resizeDims NE pos a =
     (px pos - x' a,
      (px pos - x' a) / (real (naturalWidth (img a)) / real (naturalHeight (img a))))"
  "resizeDims SW pos a =
     (x' a + width a - px pos,
      (x' a + width a - px pos) / (real (naturalWidth (img a)) / real (naturalHeight (img a))))"
  "resizeDims SE pos a =
     (px pos - x' a,
      (px pos - x' a) / (real (naturalWidth (img a)) / real (naturalHeight (img a))))"
  by (simp_all add: resizeDims_def includes'_def Let_def)

text \<open>
  A resize that is committed leaves the opposite corner in place, for each of the four
  handles, and so does every resize by the handle \<^verbatim>\<open>se\<close>.
\<close>

lemma resizeImage_pins_when_committed:
  assumes "fst (resizeDims h pos a) > 20" "snd (resizeDims h pos a) > 20"
  shows "oppositeCorner h (resizeImage h pos a) = oppositeCorner h a"
proof -
  obtain w v where d: "resizeDims h pos a = (w, v)" by (cases "resizeDims h pos a")
  with assms have "w > 20" "v > 20" by simp_all
  with d show ?thesis
    by (cases h) (simp_all add: resizeImage_def includes'_def Let_def)
qed

lemma resizeImage_pins_SE:
  "oppositeCorner SE (resizeImage SE pos a) = oppositeCorner SE a"
  by (simp add: resizeImage_def includes'_def Let_def split: prod.splits)

text \<open>
  Claim C1 asks that every pointer move of a resize leaves the corner opposite the
  active handle where it was. The code breaks it when the recomputed size is rejected:
  \<^verbatim>\<open>x\<close> and \<^verbatim>\<open>y\<close> are assigned before the minimum is tested, the width and height only
  after. With the handle \<^verbatim>\<open>nw\<close> of a 100 x 100 layer at (100, 100) dragged to
  (190, 190), the recomputed size 10 x 10 is rejected, yet the layer moves to
  (190, 190): its opposite corner goes from (200, 200) to (290, 290).
\<close>

theorem rejected_resize_moves_pinned_corner:
  "activeHandle (handleCanvasEvents [PointerDown \<lparr>px = 100, py = 100\<rparr>]
     (stateWith [layerA] (Some 1))) = Some NW \<and>
   oppositeCorner NW layerA = \<lparr>px = 200, py = 200\<rparr> \<and>
   resizeDims NW \<lparr>px = 190, py = 190\<rparr> layerA = (10, 10) \<and>
   findActive
     (handleCanvasEvents [PointerDown \<lparr>px = 100, py = 100\<rparr>, PointerMove \<lparr>px = 190, py = 190\<rparr>]
       (stateWith [layerA] (Some 1))) = Some (layerA\<lparr>x' := 190, y' := 190\<rparr>) \<and>
   oppositeCorner NW (layerA\<lparr>x' := 190, y' := 190\<rparr>) = \<lparr>px = 290, py = 290\<rparr>"
  by (simp add: handleCanvasEvents_def handleInteractionStart_def startOnHandle_def
      findActive_def stateWith_def initialState_def layerA_def square100_def getHandleAtPos_def
      getHandlePositions_def HANDLE_SIZE_def handleInteractionMove_def resizeImage_def
      resizeDims_def includes'_def)

end
